theory Spec2Isabelle
  imports Complex_Main "HOL-Library.Word" "HOL-Library.Sublist"
begin

section \<open>Exceptions as values\<close>

text \<open>
  The module \<^verbatim>\<open>skimage/io/_plugins/pil_plugin.py\<close> converts between PIL images and numpy
  arrays. Every \<^verbatim>\<open>raise\<close> of the module, and every exception of the numpy and PIL calls
  it makes, is a value \<open>Inl e\<close>; a normal return is \<open>Inr v\<close>.
\<close>

datatype error =
    ValueError string
  | TypeError string
  | IOError string
  | KeyError string
  | IndexError string
  | AssertionError

definition ebind :: "error + 'a \<Rightarrow> ('a \<Rightarrow> error + 'b) \<Rightarrow> error + 'b" where
  "ebind m f = (case m of Inl e \<Rightarrow> Inl e | Inr v \<Rightarrow> f v)"

section \<open>numpy arrays\<close>

text \<open>
  An array is its shape, its element type and its elements in C order. An element of an
  integer kind is its value; an element of the floating kind is carried as its IEEE bit
  pattern, on which the module itself never computes (it only tests \<^verbatim>\<open>dtype.kind\<close>).
\<close>

datatype dkind = Kind_i | Kind_u | Kind_f

record dtype =
  kind :: dkind
  itemsize :: nat
  big_endian :: bool

record ndarray =
  shape :: "nat list"
  dtype :: dtype
  data :: "int list"

definition wf_array :: "ndarray \<Rightarrow> bool" where
  "wf_array a = (length (data a) = prod_list (shape a))"

definition ndim :: "ndarray \<Rightarrow> nat" where
  "ndim a = length (shape a)"

definition uint8 :: dtype where
  "uint8 = \<lparr>kind = Kind_u, itemsize = 1, big_endian = False\<rparr>"

definition uint16 :: "bool \<Rightarrow> dtype" where
  \<comment> \<open>\<^verbatim>\<open>'>u2'\<close> is \<open>uint16 True\<close>, \<^verbatim>\<open>'<u2'\<close> is \<open>uint16 False\<close>; \<^verbatim>\<open>np.uint16\<close> has the host's order.\<close>
  "uint16 big = \<lparr>kind = Kind_u, itemsize = 2, big_endian = big\<rparr>"

definition int32 :: "bool \<Rightarrow> dtype" where
  "int32 big = \<lparr>kind = Kind_i, itemsize = 4, big_endian = big\<rparr>"

definition float32 :: "bool \<Rightarrow> dtype" where
  "float32 big = \<lparr>kind = Kind_f, itemsize = 4, big_endian = big\<rparr>"

definition squeeze :: "ndarray \<Rightarrow> ndarray" where
  \<comment> \<open>\<^verbatim>\<open>arr.squeeze()\<close> drops every axis of length 1, wherever it stands.\<close>
  "squeeze a = a\<lparr>shape := filter (\<lambda>n. n \<noteq> 1) (shape a)\<rparr>"

definition amax :: "ndarray \<Rightarrow> error + int" where
  "amax a =
     (if data a = []
      then Inl (ValueError ''zero-size array to reduction operation maximum which has no identity'')
      else Inr (Max (set (data a))))"

definition amin :: "ndarray \<Rightarrow> error + int" where
  "amin a =
     (if data a = []
      then Inl (ValueError ''zero-size array to reduction operation minimum which has no identity'')
      else Inr (Min (set (data a))))"

definition wrap_int :: "dtype \<Rightarrow> int \<Rightarrow> int" where
  \<comment> \<open>An integer cast keeps the low bits: modulo \<open>2 ^ bits\<close>, read in two's complement
      for a signed target.\<close>
  "wrap_int d v =
     (let m = 2 ^ (8 * itemsize d) in
      case kind d of
        Kind_u \<Rightarrow> v mod m
      | Kind_i \<Rightarrow> (v + m div 2) mod m - m div 2
      | Kind_f \<Rightarrow> v)"

definition astype_int :: "ndarray \<Rightarrow> dtype \<Rightarrow> ndarray" where
  \<comment> \<open>\<^verbatim>\<open>arr.astype(t)\<close> from an integer kind to an integer type \<open>t\<close>.\<close>
  "astype_int a d = a\<lparr>dtype := d, data := map (wrap_int d) (data a)\<rparr>"

subsection \<open>Bytes of an array\<close>

type_synonym byte = "8 word"

fun encode_le :: "nat \<Rightarrow> int \<Rightarrow> byte list" where
  "encode_le 0 v = []"
| "encode_le (Suc n) v = word_of_int v # encode_le n (v div 256)"

fun decode_le :: "byte list \<Rightarrow> int" where
  "decode_le [] = 0"
| "decode_le (b # bs) = uint b + 256 * decode_le bs"

definition encode_elem :: "dtype \<Rightarrow> int \<Rightarrow> byte list" where
  "encode_elem d v =
     (if big_endian d then rev (encode_le (itemsize d) v) else encode_le (itemsize d) v)"

definition decode_elem :: "dtype \<Rightarrow> byte list \<Rightarrow> int" where
  "decode_elem d bs =
     (let u = decode_le (if big_endian d then rev bs else bs) in
      case kind d of
        Kind_i \<Rightarrow> (if 2 ^ (8 * itemsize d - 1) \<le> u then u - 2 ^ (8 * itemsize d) else u)
      | Kind_u \<Rightarrow> u
      | Kind_f \<Rightarrow> u)"

function chunks :: "nat \<Rightarrow> 'a list \<Rightarrow> 'a list list" where
  "chunks n xs = (if n = 0 \<or> xs = [] then [] else take n xs # chunks n (drop n xs))"
  by pat_completeness auto
termination
  by (relation "measure (\<lambda>(n, xs). length xs)") auto

declare chunks.simps [simp del]

definition tostring :: "ndarray \<Rightarrow> byte list" where
  \<comment> \<open>\<^verbatim>\<open>arr.tostring()\<close>: the elements in C order, each in the byte order of its type.\<close>
  "tostring a = concat (map (encode_elem (dtype a)) (data a))"

definition fromstring :: "byte list \<Rightarrow> dtype \<Rightarrow> error + ndarray" where
  \<comment> \<open>\<^verbatim>\<open>np.fromstring(s, dtype)\<close>: a 1-D array over the bytes.\<close>
  "fromstring s d =
     (if itemsize d = 0 \<or> length s mod itemsize d \<noteq> 0
      then Inl (ValueError ''string size must be a multiple of element size'')
      else Inr \<lparr>shape = [length s div itemsize d], dtype = d,
                data = map (decode_elem d) (chunks (itemsize d) s)\<rparr>)"

definition set_shape :: "ndarray \<Rightarrow> nat list \<Rightarrow> error + ndarray" where
  \<comment> \<open>\<^verbatim>\<open>a.shape = s\<close>: refused when the number of elements would change.\<close>
  "set_shape a s =
     (if prod_list s = length (data a) then Inr (a\<lparr>shape := s\<rparr>)
      else Inl (ValueError ''total size of new array must be unchanged''))"

definition reshape_rows :: "nat \<Rightarrow> nat \<Rightarrow> int list \<Rightarrow> error + int list list" where
  \<comment> \<open>\<^verbatim>\<open>a.reshape((r, c))\<close> of a flat sequence, as its list of rows.\<close>
  "reshape_rows r c xs =
     (if length xs = r * c then Inr (map (\<lambda>i. take c (drop (i * c) xs)) [0..<r])
      else Inl (ValueError ''total size of new array must be unchanged''))"

definition diff :: "int list \<Rightarrow> int list" where
  \<comment> \<open>\<^verbatim>\<open>np.diff\<close> along the last axis: \<open>row[i+1] - row[i]\<close>.\<close>
  "diff row = map (\<lambda>(b, a). b - a) (zip (tl row) row)"

definition allclose_zero :: "int list list \<Rightarrow> bool" where
  \<comment> \<open>\<^verbatim>\<open>np.allclose(x, 0)\<close>: every \<open>|x - 0| \<le> atol + rtol * |0|\<close> with \<open>atol = 1e-8\<close>.\<close>
  "allclose_zero rows =
     list_all (\<lambda>row. list_all (\<lambda>d. \<bar>rat_of_int d\<bar> \<le> 1 / 10 ^ 8) row) rows"

section \<open>PIL images\<close>

text \<open>
  A PIL image is what the module reads of it: the mode, the size \<open>(width, height)\<close>, the
  bytes \<^verbatim>\<open>tostring()\<close> yields, the palette \<^verbatim>\<open>getpalette()\<close> yields, the file object \<^verbatim>\<open>fp\<close>
  (a handle, \<open>None\<close> when the attribute is missing or empty), and whether its lazily decoded
  pixel data can be loaded at all: every pixel access of an image that cannot be loaded
  raises \<^verbatim>\<open>IOError\<close>. The PIL modelled is the one whose interface the module calls
  (\<^verbatim>\<open>tostring\<close>, \<^verbatim>\<open>fromstring\<close>).
\<close>

record pil_image =
  mode :: string
  size_im :: "nat \<times> nat"
  buffer :: "byte list"
  palette :: "int list option"
  fp :: "nat option"
  readable :: bool

definition load :: "pil_image \<Rightarrow> error + unit" where
  "load im = (if readable im then Inr () else Inl (IOError ''image file is truncated''))"

definition im_tostring :: "pil_image \<Rightarrow> error + byte list" where
  "im_tostring im = ebind (load im) (\<lambda>_. Inr (buffer im))"

definition getdata_first :: "pil_image \<Rightarrow> error + byte" where
  \<comment> \<open>\<^verbatim>\<open>im.getdata()[0]\<close>\<close>
  "getdata_first im =
     ebind (load im) (\<lambda>_. case buffer im of [] \<Rightarrow> Inl (IndexError ''image index out of range'')
                                          | b # _ \<Rightarrow> Inr b)"

definition getpalette :: "pil_image \<Rightarrow> error + int list option" where
  "getpalette im = ebind (load im) (\<lambda>_. Inr (palette im))"

definition getextrema :: "pil_image \<Rightarrow> error + (nat \<times> nat) option" where
  \<comment> \<open>The least and the greatest pixel value, both inclusive; \<open>None\<close> for an image with no
      pixel. In mode \<^verbatim>\<open>P\<close> every pixel is one byte, a palette index.\<close>
  "getextrema im =
     ebind (load im) (\<lambda>_.
       if buffer im = [] then Inr None
       else Inr (Some (Min (set (map unat (buffer im))), Max (set (map unat (buffer im))))))"

definition mode_bytes :: "string \<Rightarrow> nat option" where
  \<comment> \<open>Bytes per pixel of \<^verbatim>\<open>tostring()\<close> in the modes \<^verbatim>\<open>ndarray_to_pil\<close> creates.\<close>
  "mode_bytes m =
     (if m = ''L'' then Some 1 else if m = ''I'' then Some 4
      else if m = ''RGB'' then Some 3 else if m = ''RGBA'' then Some 4 else None)"

definition Image_new :: "string \<Rightarrow> nat list \<Rightarrow> error + pil_image" where
  \<comment> \<open>\<^verbatim>\<open>Image.new(mode, size)\<close>: a zero-filled image; \<open>size\<close> must be a pair.\<close>
  "Image_new m sz =
     (case sz of
        [w, h] \<Rightarrow>
          (case mode_bytes m of
             None \<Rightarrow> Inl (ValueError ''unrecognized mode'')
           | Some k \<Rightarrow> Inr \<lparr>mode = m, size_im = (w, h), buffer = replicate (w * h * k) 0,
                             palette = None, fp = None, readable = True\<rparr>)
      | _ \<Rightarrow> Inl (TypeError ''size must be a 2-tuple''))"

definition raw_unpack :: "bool \<Rightarrow> string \<Rightarrow> string \<Rightarrow> (nat \<times> (byte list \<Rightarrow> byte list)) option" where
  \<comment> \<open>The raw decoder for an image mode and a raw mode: the bytes it takes per pixel and
      what it stores. Raw mode \<^verbatim>\<open>I;16\<close> is unsigned 16-bit little-endian whatever the
      host; mode \<^verbatim>\<open>I\<close> stores 32-bit integers in the host's order.\<close>
  "raw_unpack host_big m raw =
     (if m = ''L'' \<and> raw = ''L'' then Some (1, \<lambda>bs. bs)
      else if m = ''RGB'' \<and> raw = ''RGB'' then Some (3, \<lambda>bs. bs)
      else if m = ''RGBA'' \<and> raw = ''RGBA'' then Some (4, \<lambda>bs. bs)
      else if m = ''I'' \<and> raw = ''I'' then Some (4, \<lambda>bs. bs)
      else if m = ''I'' \<and> raw = ''I;16''
        then Some (2, \<lambda>bs. encode_elem (int32 host_big) (decode_elem (uint16 False) bs))
      else None)"

definition im_fromstring :: "bool \<Rightarrow> pil_image \<Rightarrow> byte list \<Rightarrow> string \<Rightarrow> error + pil_image" where
  \<comment> \<open>\<^verbatim>\<open>im.fromstring(data, 'raw', rawmode)\<close>: fills the image, which the model returns.
      The decoder stops when the image is full; bytes beyond that are not read.\<close>
  "im_fromstring host_big im s raw =
     (case raw_unpack host_big (mode im) raw of
        None \<Rightarrow> Inl (ValueError ''unknown raw mode'')
      | Some (k, unpack) \<Rightarrow>
          (let n = fst (size_im im) * snd (size_im im) * k in
           if length s < n then Inl (ValueError ''not enough image data'')
           else Inr (im\<lparr>buffer := concat (map unpack (chunks k (take n s)))\<rparr>)))"

definition mode_conv :: "bool \<Rightarrow> string \<Rightarrow> (dtype \<times> nat option) option" where
  \<comment> \<open>PIL's array interface: the element type and the extra axis of a mode.\<close>
  "mode_conv host_big m =
     (if m = ''L'' then Some (uint8, None)
      else if m = ''I'' then Some (int32 host_big, None)
      else if m = ''F'' then Some (float32 host_big, None)
      else if m = ''RGB'' \<or> m = ''YCbCr'' then Some (uint8, Some 3)
      else if m = ''RGBA'' \<or> m = ''RGBX'' \<or> m = ''CMYK'' then Some (uint8, Some 4)
      else None)"

section \<open>What the module takes from outside\<close>

text \<open>
  The host's byte order, the range conversions of \<^verbatim>\<open>skimage.util\<close>, PIL's mode conversion
  and file opening, and the parts of numpy's casts that compute on floating-point values
  are parameters of the model: the theorems hold for every choice of them.
\<close>

record platform =
  big_endian_host :: bool
  img_as_ubyte :: "ndarray \<Rightarrow> error + ndarray"
  img_as_uint :: "ndarray \<Rightarrow> error + ndarray"
  img_as_int :: "ndarray \<Rightarrow> error + ndarray"
  convert :: "pil_image \<Rightarrow> string \<Rightarrow> error + pil_image"
  cast_float :: "ndarray \<Rightarrow> dtype \<Rightarrow> ndarray"
  array_other :: "pil_image \<Rightarrow> error + ndarray"
  Image_open :: "string \<Rightarrow> error + pil_image"

definition im_convert :: "platform \<Rightarrow> pil_image \<Rightarrow> string \<Rightarrow> error + pil_image" where
  \<comment> \<open>\<^verbatim>\<open>im.convert(mode)\<close> loads the pixel data first.\<close>
  "im_convert P im m = ebind (load im) (\<lambda>_. convert P im m)"

definition np_array :: "platform \<Rightarrow> ndarray \<Rightarrow> dtype option \<Rightarrow> ndarray" where
  \<comment> \<open>\<^verbatim>\<open>np.array(a, dtype=dtype)\<close> of an array: a copy, cast when a type is asked for.\<close>
  "np_array P a dt =
     (case dt of
        None \<Rightarrow> a
      | Some d \<Rightarrow>
          if d = dtype a then a
          else if kind (dtype a) \<noteq> Kind_f \<and> kind d \<noteq> Kind_f then astype_int a d
          else cast_float P a d)"

definition np_array_im :: "platform \<Rightarrow> pil_image \<Rightarrow> dtype option \<Rightarrow> error + ndarray" where
  \<comment> \<open>\<^verbatim>\<open>np.array(im, dtype=dtype)\<close> of a PIL image, through its array interface: shape
      \<open>(height, width)\<close>, with the bands as a third axis. What numpy makes of an image
      whose interface cannot be built (no entry for the mode, or data that cannot be
      loaded) is left to \<open>array_other\<close>.\<close>
  "np_array_im P im dt =
     (case (if readable im then mode_conv (big_endian_host P) (mode im) else None) of
        None \<Rightarrow> ebind (array_other P im) (\<lambda>a. Inr (np_array P a dt))
      | Some (d, extra) \<Rightarrow>
          ebind (im_tostring im) (\<lambda>s.
            ebind (fromstring s d) (\<lambda>a.
              ebind (set_shape a ([snd (size_im im), fst (size_im im)] @
                                   (case extra of None \<Rightarrow> [] | Some c \<Rightarrow> [c]))) (\<lambda>a'.
                Inr (np_array P a' dt)))))"

section \<open>Reading: \<^verbatim>\<open>_palette_is_grayscale\<close>, \<^verbatim>\<open>pil_to_ndarray\<close>, \<^verbatim>\<open>imread\<close>\<close>

definition palette_is_grayscale :: "pil_image \<Rightarrow> error + bool" where
  \<comment> \<open>\<^verbatim>\<open>_palette_is_grayscale(pil_image)\<close>; \<^verbatim>\<open>start, stop = pil_image.getextrema()\<close> cannot
      unpack \<^verbatim>\<open>None\<close>.\<close>
  "palette_is_grayscale pil_image =
     (if mode pil_image \<noteq> ''P'' then Inl AssertionError
      else
        ebind (getpalette pil_image) (\<lambda>pal.
          ebind (case pal of
                   None \<Rightarrow> Inl (ValueError ''total size of new array must be unchanged'')
                 | Some p \<Rightarrow> reshape_rows 256 3 p) (\<lambda>palette.
            ebind (getextrema pil_image) (\<lambda>ex.
              case ex of
                None \<Rightarrow> Inl (TypeError ''NoneType object is not iterable'')
              | Some (start, stop) \<Rightarrow>
                  (let valid_palette = drop start (take stop palette)
                   in Inr (allclose_zero (map diff valid_palette)))))))"

definition pil_to_ndarray_value :: "platform \<Rightarrow> pil_image \<Rightarrow> dtype option \<Rightarrow> error + ndarray" where
  \<comment> \<open>Lines 51 to 65 of \<^verbatim>\<open>pil_to_ndarray\<close>: the array, or the exception raised on the way.
      The closing \<^verbatim>\<open>np.array(im, dtype=dtype)\<close> of line 65 is written at the end of each
      branch, since \<^verbatim>\<open>im\<close> is an image in four of them and an array in the \<^verbatim>\<open>I;16\<close> one,
      where \<^verbatim>\<open>dtype\<close> has been overwritten.\<close>
  "pil_to_ndarray_value P im dt =
     (if mode im = ''P'' then
        ebind (palette_is_grayscale im) (\<lambda>g.
          if g then ebind (im_convert P im ''L'') (\<lambda>im'. np_array_im P im' dt)
          else ebind (im_convert P im ''RGB'') (\<lambda>im'. np_array_im P im' dt))
      else if mode im = ''1'' then
        ebind (im_convert P im ''L'') (\<lambda>im'. np_array_im P im' dt)
      else if prefix ''I;16'' (mode im) then
        (let shape' = size_im im;
             dt' = (if suffix ''B'' (mode im) then uint16 True else uint16 False)
         in ebind (im_tostring im) (\<lambda>s.
              ebind (fromstring s dt') (\<lambda>a.
                ebind (set_shape a [snd shape', fst shape']) (\<lambda>a'.
                  Inr (np_array P a' (Some dt'))))))
      else if CHR ''A'' \<in> set (mode im) then
        ebind (im_convert P im ''RGBA'') (\<lambda>im'. np_array_im P im' dt)
      else np_array_im P im dt)"

definition pil_to_ndarray ::
  "platform \<Rightarrow> pil_image \<Rightarrow> dtype option \<Rightarrow> nat set \<Rightarrow> (error + ndarray) \<times> nat set" where
  \<comment> \<open>The whole function, on the set of open file handles: \<^verbatim>\<open>fp\<close> is read first, and
      \<^verbatim>\<open>fp.close()\<close> stands after the conversion, outside any \<^verbatim>\<open>try\<close>.\<close>
  "pil_to_ndarray P im dt opened =
     (let fp' = fp im in
      case pil_to_ndarray_value P im dt of
        Inl e \<Rightarrow> (Inl e, opened)
      | Inr a \<Rightarrow> (Inr a, (case fp' of None \<Rightarrow> opened | Some h \<Rightarrow> opened - {h})))"

definition site :: string where
  "site = ''http://pillow.readthedocs.org/en/latest/installation.html#external-libraries''"

definition could_not_load :: "string \<Rightarrow> string" where
  \<comment> \<open>\<^verbatim>\<open>'Could not load "%s"\nPlease see documentation at: %s' % (fname, site)\<close>\<close>
  "could_not_load fname =
     ''Could not load '' @ [CHR 0x22] @ fname @ [CHR 0x22, CHR 0x0A] @
     ''Please see documentation at: '' @ site"

definition imread ::
  "platform \<Rightarrow> string \<Rightarrow> dtype option \<Rightarrow> nat set \<Rightarrow> (error + ndarray) \<times> nat set" where
  \<comment> \<open>\<^verbatim>\<open>Image.open\<close> opens the image's file; only \<^verbatim>\<open>IOError\<close> is caught.\<close>
  "imread P fname dt opened =
     (case Image_open P fname of
        Inl e \<Rightarrow> (Inl e, opened)
      | Inr im \<Rightarrow>
          (let opened' = (case fp im of None \<Rightarrow> opened | Some h \<Rightarrow> insert h opened) in
           case getdata_first im of
             Inl (IOError m) \<Rightarrow> (Inl (ValueError (could_not_load fname)), opened')
           | Inl e \<Rightarrow> (Inl e, opened')
           | Inr b \<Rightarrow> pil_to_ndarray P im dt opened'))"

section \<open>Writing: \<^verbatim>\<open>ndarray_to_pil\<close>, \<^verbatim>\<open>imsave\<close>\<close>

fun show_nat :: "nat \<Rightarrow> string" where
  "show_nat n =
     (if n < 10 then [char_of (48 + n)] else show_nat (n div 10) @ [char_of (48 + n mod 10)])"

declare show_nat.simps [simp del]

definition invalid_shape :: "nat list \<Rightarrow> error" where
  \<comment> \<open>\<^verbatim>\<open>raise ValueError("Invalid shape for image array: %s" % arr.shape)\<close>: the operand of
      \<^verbatim>\<open>%\<close> is the shape tuple itself, so the one \<^verbatim>\<open>%s\<close> formats only a tuple of length one;
      any other length makes the formatting raise \<^verbatim>\<open>TypeError\<close> before \<^verbatim>\<open>ValueError\<close> is
      built.\<close>
  "invalid_shape s =
     (case s of
        [] \<Rightarrow> TypeError ''not enough arguments for format string''
      | [n] \<Rightarrow> ValueError (''Invalid shape for image array: '' @ show_nat n)
      | _ \<Rightarrow> TypeError ''not all arguments converted during string formatting'')"

definition tiff_hint :: "string option \<Rightarrow> bool" where
  \<comment> \<open>\<^verbatim>\<open>not format_str is None and format_str in ('tiff', 'tif')\<close>\<close>
  "tiff_hint format_str =
     (case format_str of None \<Rightarrow> False | Some f \<Rightarrow> f = ''tiff'' \<or> f = ''tif'')"

definition in_range :: "ndarray \<Rightarrow> int \<Rightarrow> error + bool" where
  \<comment> \<open>\<^verbatim>\<open>arr.max() < k and arr.min() >= 0\<close>\<close>
  "in_range arr k =
     ebind (amax arr) (\<lambda>mx. if mx < k then ebind (amin arr) (\<lambda>mn. Inr (0 \<le> mn)) else Inr False)"

definition channel_mode :: "ndarray \<Rightarrow> error + string" where
  \<comment> \<open>\<^verbatim>\<open>{3: 'RGB', 4: 'RGBA'}[arr.shape[2]]\<close>\<close>
  "channel_mode arr =
     (if length (shape arr) \<le> 2 then Inl (IndexError ''tuple index out of range'')
      else if shape arr ! 2 = 3 then Inr ''RGB''
      else if shape arr ! 2 = 4 then Inr ''RGBA''
      else Inl (KeyError (show_nat (shape arr ! 2))))"

definition select_mode :: "platform \<Rightarrow> ndarray \<Rightarrow> error + (ndarray \<times> string \<times> string)" where
  \<comment> \<open>Lines 116 to 138: the converted array, \<^verbatim>\<open>mode\<close> and \<^verbatim>\<open>mode_base\<close>.\<close>
  "select_mode P arr =
     (if ndim arr = 3 then
        ebind (img_as_ubyte P arr) (\<lambda>arr'.
          ebind (channel_mode arr') (\<lambda>m. Inr (arr', m, m)))
      else if kind (dtype arr) = Kind_f then
        ebind (img_as_uint P arr) (\<lambda>arr'. Inr (arr', ''I;16'', ''I''))
      else
        ebind (in_range arr 256) (\<lambda>r8.
          if r8 then Inr (astype_int arr uint8, ''L'', ''L'')
          else
            ebind (in_range arr (2 ^ 16)) (\<lambda>r16.
              if r16 then Inr (astype_int arr (uint16 (big_endian_host P)), ''I;16'', ''I'')
              else ebind (img_as_int P arr) (\<lambda>arr'. Inr (arr', ''I'', ''I'')))))"

definition pack :: "platform \<Rightarrow> ndarray \<times> string \<times> string \<Rightarrow> error + pil_image" where
  \<comment> \<open>Lines 140 to 142: \<^verbatim>\<open>Image.new(mode_base, arr.T.shape)\<close>, then
      \<^verbatim>\<open>im.fromstring(arr.tostring(), 'raw', mode)\<close>. \<^verbatim>\<open>arr.T.shape\<close> is the shape reversed.\<close>
  "pack P sel =
     (case sel of (arr, mode', mode_base) \<Rightarrow>
        ebind (Image_new mode_base (rev (shape arr))) (\<lambda>im.
          im_fromstring (big_endian_host P) im (tostring arr) mode'))"

definition ndarray_to_pil :: "platform \<Rightarrow> ndarray \<Rightarrow> string option \<Rightarrow> error + pil_image" where
  "ndarray_to_pil P arr0 format_str =
     (let arr = squeeze arr0 in
      if ndim arr \<noteq> 2 \<and> ndim arr \<noteq> 3 then Inl (invalid_shape (shape arr))
      else if ndim arr = 3 \<and> shape arr ! 2 \<noteq> 3 \<and> shape arr ! 2 \<noteq> 4
        then Inl (ValueError ''Invalid number of channels in image array.'')
      else
        (let rest = ebind (select_mode P arr) (pack P)
         in if tiff_hint format_str then rest else rest))"

datatype dest = Path string | FileObj nat

record save_call =
  saved_image :: pil_image
  saved_to :: dest
  saved_format :: "string option"

definition imsave :: "platform \<Rightarrow> dest \<Rightarrow> ndarray \<Rightarrow> string option \<Rightarrow> error + save_call" where
  \<comment> \<open>\<^verbatim>\<open>img.save(fname, format=format_str)\<close> is the codec's: the model returns the call
      it receives. \<^verbatim>\<open>ndarray_to_pil\<close> is called with \<^verbatim>\<open>format_str=None\<close>.\<close>
  "imsave P fname arr format_str =
     (let format_str' =
            (case fname of
               Path _ \<Rightarrow> format_str
             | FileObj _ \<Rightarrow> (if format_str = None then Some ''PNG'' else format_str))
      in ebind (ndarray_to_pil P arr None) (\<lambda>img.
           Inr \<lparr>saved_image = img, saved_to = fname, saved_format = format_str'\<rparr>))"

section \<open>A host for the examples\<close>

definition sample_host :: platform where
  \<comment> \<open>One choice of the parameters, for the examples only. The host is little-endian;
      \<^verbatim>\<open>img_as_uint\<close> takes the doubles \<open>0.0\<close> and \<open>1.0\<close> (by their bit patterns) to \<open>0\<close> and
      \<open>65535\<close>; one file can be opened, whose data is truncated; whatever else is asked
      of the collaborators is refused.\<close>
  "sample_host =
     \<lparr>big_endian_host = False,
      img_as_ubyte = (\<lambda>a. Inl (ValueError ''outside the sample'')),
      img_as_uint =
        (\<lambda>a. if kind (dtype a) = Kind_f \<and> list_all (\<lambda>v. v = 0 \<or> v = 0x3FF0000000000000) (data a)
             then Inr (a\<lparr>dtype := uint16 False,
                         data := map (\<lambda>v. if v = 0 then 0 else 65535) (data a)\<rparr>)
             else Inl (ValueError ''outside the sample'')),
      img_as_int = (\<lambda>a. Inl (ValueError ''outside the sample'')),
      convert = (\<lambda>im m. Inl (ValueError ''outside the sample'')),
      cast_float = (\<lambda>a d. a\<lparr>dtype := d\<rparr>),
      array_other = (\<lambda>im. Inl (TypeError ''outside the sample'')),
      Image_open =
        (\<lambda>f. if f = ''truncated.png''
             then Inr \<lparr>mode = ''L'', size_im = (2, 2), buffer = [], palette = None,
                        fp = Some 3, readable = False\<rparr>
             else Inl (IOError ''No such file or directory''))\<rparr>"

definition float64 :: dtype where
  "float64 = \<lparr>kind = Kind_f, itemsize = 8, big_endian = False\<rparr>"

definition trailing_squeezed :: "nat list \<Rightarrow> nat list" where
  \<comment> \<open>The shape as the specification words it: only trailing axes of length 1 dropped.\<close>
  "trailing_squeezed s = rev (dropWhile (\<lambda>n. n = 1) (rev s))"

section \<open>Lemmas: squeezing, chunks and bytes\<close>

lemma ebind_Inl [simp]: "ebind (Inl e) f = Inl e"
  by (simp add: ebind_def)

lemma ebind_Inr [simp]: "ebind (Inr v) f = f v"
  by (simp add: ebind_def)

lemma squeeze_plain: "1 \<notin> set (shape a) \<Longrightarrow> squeeze a = a"
proof -
  assume "1 \<notin> set (shape a)"
  then have "filter (\<lambda>n. n \<noteq> 1) (shape a) = shape a"
    by (induction "shape a") (auto simp: filter_id_conv)
  then show ?thesis by (simp add: squeeze_def)
qed

lemma chunks_Nil [simp]: "chunks n [] = []"
  by (simp add: chunks.simps)

lemma chunks_append: "0 < length x \<Longrightarrow> chunks (length x) (x @ ys) = x # chunks (length x) ys"
  by (subst chunks.simps) auto

lemma chunks_concat_map:
  "0 < n \<Longrightarrow> \<forall>x\<in>set xs. length (f x) = n \<Longrightarrow> chunks n (concat (map f xs)) = map f xs"
proof (induction xs)
  case Nil
  then show ?case by simp
next
  case (Cons x xs)
  then have len: "length (f x) = n" by simp
  have "chunks (length (f x)) (f x @ concat (map f xs)) = f x # chunks (length (f x)) (concat (map f xs))"
    using Cons.prems(1) len by (intro chunks_append) simp
  with Cons len show ?case by simp
qed

lemma length_chunk:
  "0 < n \<Longrightarrow> length xs mod n = 0 \<Longrightarrow> c \<in> set (chunks n xs) \<Longrightarrow> length c = n"
proof (induction n xs rule: chunks.induct)
  case (1 n xs)
  show ?case
  proof (cases "xs = []")
    case True
    with 1 show ?thesis by simp
  next
    case False
    have ge: "n \<le> length xs"
      using False "1.prems" by (metis length_greater_0_conv mod_less not_less less_not_refl)
    have md: "length (drop n xs) mod n = 0"
      using "1.prems"(2) ge by (simp add: le_mod_geq)
    from "1.prems"(3) False "1.prems"(1)
    have "c = take n xs \<or> c \<in> set (chunks n (drop n xs))"
      by (subst (asm) chunks.simps) auto
    then show ?thesis
      using "1.IH" "1.prems"(1) False md ge by auto
  qed
qed

lemma length_chunks:
  "0 < n \<Longrightarrow> length xs mod n = 0 \<Longrightarrow> length (chunks n xs) = length xs div n"
proof (induction n xs rule: chunks.induct)
  case (1 n xs)
  show ?case
  proof (cases "xs = []")
    case True
    then show ?thesis by simp
  next
    case False
    have ge: "n \<le> length xs"
      using False "1.prems" by (metis length_greater_0_conv mod_less not_less less_not_refl)
    have md: "length (drop n xs) mod n = 0"
      using "1.prems"(2) ge by (simp add: le_mod_geq)
    have "length (chunks n (drop n xs)) = length (drop n xs) div n"
      using "1.IH" "1.prems"(1) False md by simp
    then have "length (chunks n xs) = Suc ((length xs - n) div n)"
      using False "1.prems"(1) by (subst chunks.simps) simp
    also have "\<dots> = length xs div n"
      using ge "1.prems"(1) by (simp add: le_div_geq)
    finally show ?thesis .
  qed
qed

lemma length_encode_le [simp]: "length (encode_le n v) = n"
  by (induction n arbitrary: v) simp_all

lemma decode_encode_le: "decode_le (encode_le n v) = v mod 256 ^ n"
proof (induction n arbitrary: v)
  case 0
  then show ?case by simp
next
  case (Suc n)
  have "uint (word_of_int v :: byte) = v mod 256"
    by (simp add: uint_word_of_int)
  moreover have "v mod (256 * 256 ^ n) = 256 * ((v div 256) mod 256 ^ n) + v mod 256"
    by (rule zmod_zmult2_eq) simp
  ultimately show ?case using Suc by simp
qed

lemma decode_encode_unsigned:
  assumes "kind d = Kind_u" "0 \<le> v" "v < 2 ^ (8 * itemsize d)"
  shows "decode_elem d (encode_elem d v) = v"
proof -
  have "(256::int) ^ itemsize d = 2 ^ (8 * itemsize d)"
    by (simp add: power_mult)
  then have "v mod 256 ^ itemsize d = v"
    using assms(2,3) by simp
  then show ?thesis
    using assms(1) by (simp add: decode_elem_def encode_elem_def decode_encode_le)
qed

lemma decode_encode_int32:
  assumes "0 \<le> v" "v < 2 ^ 31"
  shows "decode_elem (int32 big) (encode_elem (int32 big) v) = v"
proof -
  have "v mod 256 ^ 4 = v"
    using assms by simp
  then show ?thesis
    using assms by (simp add: decode_elem_def encode_elem_def decode_encode_le int32_def)
qed

lemma length_encode_elem [simp]: "length (encode_elem d v) = itemsize d"
  by (simp add: encode_elem_def)

lemma decode_uint16_pair:
  "length c = 2 \<Longrightarrow>
   decode_elem (uint16 big) c =
     (if big then 256 * uint (c ! 0) + uint (c ! 1) else uint (c ! 0) + 256 * uint (c ! 1))"
proof -
  assume "length c = 2"
  then obtain x y where "c = [x, y]"
    by (cases c; cases "tl c") auto
  then show ?thesis
    by (simp add: decode_elem_def uint16_def)
qed

lemma in_range_eq:
  "data a \<noteq> [] \<Longrightarrow>
   in_range a k = Inr ((\<forall>v\<in>set (data a). v < k) \<and> (\<forall>v\<in>set (data a). 0 \<le> v))"
  by (auto simp: in_range_def amax_def amin_def)

lemma pack_2d:
  assumes "shape arr = [h, w]" "length (data arr) = h * w"
    and "raw_unpack (big_endian_host P) mb m = Some (itemsize (dtype arr), unpack)"
    and "mode_bytes mb = Some k" "0 < itemsize (dtype arr)"
  shows "pack P (arr, m, mb) =
         Inr \<lparr>mode = mb, size_im = (w, h),
               buffer = concat (map (\<lambda>v. unpack (encode_elem (dtype arr) v)) (data arr)),
               palette = None, fp = None, readable = True\<rparr>"
proof -
  have ch: "chunks (itemsize (dtype arr)) (tostring arr) = map (encode_elem (dtype arr)) (data arr)"
    unfolding tostring_def using assms(5) by (intro chunks_concat_map) simp_all
  have len: "length (tostring arr) = w * h * itemsize (dtype arr)"
    using assms(2) by (simp add: tostring_def length_concat comp_def sum_list_triv)
  show ?thesis
    using assms(1,3,4) ch len
    by (simp add: pack_def Image_new_def im_fromstring_def comp_def)
qed

lemma pack_mode:
  "pack P (arr, m, mb) = Inr im \<Longrightarrow> mode im = mb"
  by (auto simp: pack_def Image_new_def im_fromstring_def ebind_def Let_def
      split: sum.splits list.splits option.splits if_splits)

lemma array_of_image:
  assumes "mode_conv (big_endian_host P) (mode im) = Some (d, None)" "readable im"
    and "size_im im = (w, h)" "buffer im = concat (map (encode_elem d) xs)"
    and "length xs = h * w" "0 < itemsize d"
    and "\<forall>v\<in>set xs. decode_elem d (encode_elem d v) = v"
  shows "np_array_im P im None = Inr \<lparr>shape = [h, w], dtype = d, data = xs\<rparr>"
proof -
  have ch: "chunks (itemsize d) (buffer im) = map (encode_elem d) xs"
    unfolding assms(4) using assms(6) by (intro chunks_concat_map) simp_all
  have len: "length (buffer im) = h * w * itemsize d"
    using assms(5) by (simp add: assms(4) length_concat comp_def sum_list_triv)
  have dec: "map (decode_elem d) (map (encode_elem d) xs) = xs"
    using assms(7) by (simp add: map_idI)
  show ?thesis
    using assms(1,2,3,5,6) ch len dec
    by (simp add: np_array_im_def im_tostring_def load_def fromstring_def set_shape_def
        np_array_def)
qed

lemma value_of_plain_mode:
  assumes "mode im = ''L'' \<or> mode im = ''I''"
  shows "pil_to_ndarray_value P im dt = np_array_im P im dt"
  using assms by (auto simp: pil_to_ndarray_value_def)

lemma ndarray_to_pil_2d:
  assumes "shape A = [h, w]" "h \<noteq> 1" "w \<noteq> 1"
  shows "ndarray_to_pil P A fmt = ebind (select_mode P A) (pack P)"
proof -
  have "squeeze A = A"
    using assms by (intro squeeze_plain) auto
  then show ?thesis
    using assms(1) by (simp add: ndarray_to_pil_def ndim_def Let_def)
qed

section \<open>Mode selection\<close>

text \<open>
  Claim C1, as the code has it. \<^verbatim>\<open>ndarray_to_pil\<close> tests the array it has squeezed. For
  every array of floating kind that is 2-D once \<^verbatim>\<open>squeeze()\<close> has dropped its axes of
  length 1, the second rule applies before the value tests are reached: the array goes
  through \<^verbatim>\<open>img_as_uint\<close>, \<^verbatim>\<open>mode\<close> is \<^verbatim>\<open>I;16\<close> and \<^verbatim>\<open>mode_base\<close> is \<^verbatim>\<open>I\<close>, and whatever the
  values are, an image that is returned has mode \<^verbatim>\<open>I\<close>, never the 8-bit mode \<^verbatim>\<open>L\<close>.
\<close>

theorem float_2d_selects_I16:
  assumes "ndim (squeeze a) = 2" "kind (dtype a) = Kind_f"
  shows "select_mode P (squeeze a) =
           ebind (img_as_uint P (squeeze a)) (\<lambda>arr'. Inr (arr', ''I;16'', ''I'')) \<and>
         ndarray_to_pil P a fmt =
           ebind (img_as_uint P (squeeze a)) (\<lambda>arr'. pack P (arr', ''I;16'', ''I'')) \<and>
         (\<forall>im. ndarray_to_pil P a fmt = Inr im \<longrightarrow> mode im = ''I'' \<and> mode im \<noteq> ''L'')"
proof -
  have k: "kind (dtype (squeeze a)) = Kind_f"
    using assms(2) by (simp add: squeeze_def)
  have sel: "select_mode P (squeeze a) =
      ebind (img_as_uint P (squeeze a)) (\<lambda>arr'. Inr (arr', ''I;16'', ''I''))"
    using assms(1) k by (simp add: select_mode_def)
  have to: "ndarray_to_pil P a fmt =
      ebind (img_as_uint P (squeeze a)) (\<lambda>arr'. pack P (arr', ''I;16'', ''I''))"
    using assms(1) sel by (cases "img_as_uint P (squeeze a)") (simp_all add: ndarray_to_pil_def Let_def)
  have "mode im = ''I''" if "ndarray_to_pil P a fmt = Inr im" for im
    using that to by (cases "img_as_uint P (squeeze a)") (auto dest: pack_mode)
  with sel to show ?thesis by simp
qed

theorem float_2d_selects_I16_witness:
  "ndim (squeeze \<lparr>shape = [2, 2], dtype = float64, data = [0, 0, 0, 0]\<rparr>) = 2 \<and>
   kind (dtype \<lparr>shape = [2, 2], dtype = float64, data = [0, 0, 0, 0]\<rparr>) = Kind_f \<and>
   select_mode sample_host (squeeze \<lparr>shape = [2, 2], dtype = float64, data = [0, 0, 0, 0]\<rparr>) =
     Inr (\<lparr>shape = [2, 2], dtype = uint16 False, data = [0, 0, 0, 0]\<rparr>, ''I;16'', ''I'') \<and>
   ndarray_to_pil sample_host \<lparr>shape = [2, 2], dtype = float64, data = [0, 0, 0, 0]\<rparr> None =
     Inr \<lparr>mode = ''I'', size_im = (2, 2),
          buffer = [0, 0, 0, 0, 0, 0, 0, 0, 0, 0, 0, 0, 0, 0, 0, 0],
          palette = None, fp = None, readable = True\<rparr>"
proof -
  have pk: "pack sample_host
      (\<lparr>shape = [2, 2], dtype = uint16 False, data = [0, 0, 0, 0]\<rparr>, ''I;16'', ''I'') =
      Inr \<lparr>mode = ''I'', size_im = (2, 2),
           buffer = [0, 0, 0, 0, 0, 0, 0, 0, 0, 0, 0, 0, 0, 0, 0, 0],
           palette = None, fp = None, readable = True\<rparr>"
    by code_simp
  show ?thesis
    using float_2d_selects_I16 [of "\<lparr>shape = [2, 2], dtype = float64, data = [0, 0, 0, 0]\<rparr>"
        sample_host None] pk
    by (simp add: ndim_def squeeze_def float64_def sample_host_def)
qed

text \<open>
  A floating array of shape \<open>(1, 3)\<close> has two dimensions, but it is squeezed to one and
  refused before any rule is tried.
\<close>

theorem float_2d_selects_I16_counterexample:
  "ndim \<lparr>shape = [1, 3], dtype = float64, data = [0, 0, 0]\<rparr> = 2 \<and>
   ndarray_to_pil sample_host \<lparr>shape = [1, 3], dtype = float64, data = [0, 0, 0]\<rparr> None =
     Inl (ValueError ''Invalid shape for image array: 3'')"
  by code_simp

section \<open>Round trips\<close>

text \<open>
  Claim C2, as the code has it. For every array \<open>A\<close> of shape \<open>(h, w)\<close> with \<open>h\<close> and \<open>w\<close>
  at least 2, of an integer kind, with every value in \<open>[0, 256)\<close>, \<^verbatim>\<open>ndarray_to_pil\<close> returns
  an image, and \<^verbatim>\<open>pil_to_ndarray\<close> of that image returns an array of the same shape and the
  same values, as unsigned bytes; no file handle is touched.
\<close>

theorem roundtrip_8bit:
  assumes "shape A = [h, w]" "2 \<le> h" "2 \<le> w" "wf_array A" "kind (dtype A) \<noteq> Kind_f"
    and "\<forall>v\<in>set (data A). 0 \<le> v \<and> v < 256"
  shows "\<exists>im. ndarray_to_pil P A fmt = Inr im \<and>
              pil_to_ndarray P im None opened =
                (Inr \<lparr>shape = [h, w], dtype = uint8, data = data A\<rparr>, opened)"
proof -
  let ?im = "\<lparr>mode = ''L'', size_im = (w, h),
              buffer = concat (map (encode_elem uint8) (data A)),
              palette = None, fp = None, readable = True\<rparr>"
  have len: "length (data A) = h * w"
    using assms(1,4) by (simp add: wf_array_def)
  have "0 < h * w"
    using assms(2,3) by simp
  with len have ne: "data A \<noteq> []"
    by auto
  have same: "map (wrap_int uint8) (data A) = data A"
    using assms(6) by (intro map_idI) (auto simp: wrap_int_def uint8_def)
  then have cast: "astype_int A uint8 = A\<lparr>dtype := uint8\<rparr>"
    by (simp add: astype_int_def)
  have sel: "select_mode P A = Inr (astype_int A uint8, ''L'', ''L'')"
    using assms(1,5,6) ne by (simp add: select_mode_def ndim_def in_range_eq)
  have "pack P (A\<lparr>dtype := uint8\<rparr>, ''L'', ''L'') = Inr ?im"
    using pack_2d [of "A\<lparr>dtype := uint8\<rparr>" h w P "''L''" "''L''" "\<lambda>bs. bs" 1] assms(1) len
    by (simp add: raw_unpack_def mode_bytes_def uint8_def)
  then have pk: "pack P (astype_int A uint8, ''L'', ''L'') = Inr ?im"
    by (simp only: cast)
  have to: "ndarray_to_pil P A fmt = Inr ?im"
    using ndarray_to_pil_2d [of A h w P fmt] assms(1,2,3) sel pk by simp
  have dec: "\<forall>v\<in>set (data A). decode_elem uint8 (encode_elem uint8 v) = v"
    using assms(6) by (auto intro!: decode_encode_unsigned simp: uint8_def)
  have "np_array_im P ?im None = Inr \<lparr>shape = [h, w], dtype = uint8, data = data A\<rparr>"
    using len dec by (intro array_of_image) (simp_all add: mode_conv_def uint8_def)
  then have "pil_to_ndarray_value P ?im None = Inr \<lparr>shape = [h, w], dtype = uint8, data = data A\<rparr>"
    by (simp add: value_of_plain_mode)
  then have "pil_to_ndarray P ?im None opened =
      (Inr \<lparr>shape = [h, w], dtype = uint8, data = data A\<rparr>, opened)"
    by (simp add: pil_to_ndarray_def)
  with to show ?thesis by blast
qed

theorem roundtrip_8bit_witness:
  "wf_array \<lparr>shape = [2, 3], dtype = uint8, data = [0, 1, 2, 3, 4, 255]\<rparr> \<and>
   list_all (\<lambda>v. 0 \<le> v \<and> v < 256) [0, 1, 2, 3, 4, 255 :: int] \<and>
   ndarray_to_pil sample_host \<lparr>shape = [2, 3], dtype = uint8, data = [0, 1, 2, 3, 4, 255]\<rparr> None =
     Inr \<lparr>mode = ''L'', size_im = (3, 2), buffer = [0, 1, 2, 3, 4, 255],
          palette = None, fp = None, readable = True\<rparr> \<and>
   pil_to_ndarray sample_host
     \<lparr>mode = ''L'', size_im = (3, 2), buffer = [0, 1, 2, 3, 4, 255],
      palette = None, fp = None, readable = True\<rparr> None {} =
     (Inr \<lparr>shape = [2, 3], dtype = uint8, data = [0, 1, 2, 3, 4, 255]\<rparr>, {})"
proof -
  let ?A = "\<lparr>shape = [2, 3], dtype = uint8, data = [0, 1, 2, 3, 4, 255]\<rparr>"
  have to: "ndarray_to_pil sample_host ?A None =
     Inr \<lparr>mode = ''L'', size_im = (3, 2), buffer = [0, 1, 2, 3, 4, 255],
          palette = None, fp = None, readable = True\<rparr>"
    by code_simp
  have "\<exists>im. ndarray_to_pil sample_host ?A None = Inr im \<and>
              pil_to_ndarray sample_host im None {} =
                (Inr \<lparr>shape = [2, 3], dtype = uint8, data = data ?A\<rparr>, {})"
    by (rule roundtrip_8bit [of ?A 2 3]) (simp_all add: wf_array_def uint8_def)
  with to show ?thesis by (simp add: wf_array_def)
qed

text \<open>
  An array of one row is squeezed to one dimension and refused, and an array with no
  element has no maximum: neither comes back.
\<close>

theorem roundtrip_8bit_counterexample:
  "ndarray_to_pil sample_host \<lparr>shape = [1, 3], dtype = uint8, data = [1, 2, 3]\<rparr> None =
     Inl (ValueError ''Invalid shape for image array: 3'') \<and>
   ndarray_to_pil sample_host \<lparr>shape = [0, 2], dtype = uint8, data = []\<rparr> None =
     Inl (ValueError ''zero-size array to reduction operation maximum which has no identity'')"
  by code_simp

text \<open>
  Claim C3, as the code has it. For every array \<open>A\<close> of shape \<open>(h, w)\<close> with \<open>h\<close> and \<open>w\<close>
  at least 2, of an integer kind, with every value in \<open>[256, 65536)\<close>, on a little-endian
  host, \<^verbatim>\<open>ndarray_to_pil\<close> returns an image (of mode \<^verbatim>\<open>I\<close>, filled through raw mode
  \<^verbatim>\<open>I;16\<close>), and \<^verbatim>\<open>pil_to_ndarray\<close> of that image returns an array of the same shape and
  the same values, as 32-bit integers.
\<close>

theorem roundtrip_16bit:
  assumes "shape A = [h, w]" "2 \<le> h" "2 \<le> w" "wf_array A" "kind (dtype A) \<noteq> Kind_f"
    and "\<forall>v\<in>set (data A). 256 \<le> v \<and> v < 65536"
    and "\<not> big_endian_host P"
  shows "\<exists>im. ndarray_to_pil P A fmt = Inr im \<and>
              pil_to_ndarray P im None opened =
                (Inr \<lparr>shape = [h, w], dtype = int32 False, data = data A\<rparr>, opened)"
proof -
  let ?im = "\<lparr>mode = ''I'', size_im = (w, h),
              buffer = concat (map (encode_elem (int32 False)) (data A)),
              palette = None, fp = None, readable = True\<rparr>"
  let ?un = "\<lambda>bs. encode_elem (int32 False) (decode_elem (uint16 False) bs)"
  have len: "length (data A) = h * w"
    using assms(1,4) by (simp add: wf_array_def)
  have "0 < h * w"
    using assms(2,3) by simp
  with len have ne: "data A \<noteq> []"
    by auto
  then obtain v0 where v0: "v0 \<in> set (data A)"
    by (cases "data A") auto
  have same: "map (wrap_int (uint16 False)) (data A) = data A"
    using assms(6) by (intro map_idI) (auto simp: wrap_int_def uint16_def)
  then have cast: "astype_int A (uint16 False) = A\<lparr>dtype := uint16 False\<rparr>"
    by (simp add: astype_int_def)
  have "\<not> (\<forall>v\<in>set (data A). v < 256)"
    using v0 assms(6) by force
  then have r8: "in_range A 256 = Inr False"
    using ne by (simp add: in_range_eq)
  have r16: "in_range A (2 ^ 16) = Inr True"
    using ne assms(6) by (auto simp: in_range_eq)
  have sel: "select_mode P A = Inr (astype_int A (uint16 False), ''I;16'', ''I'')"
    using assms(1,5,7) r8 r16 by (simp add: select_mode_def ndim_def)
  have d16: "\<forall>v\<in>set (data A). decode_elem (uint16 False) (encode_elem (uint16 False) v) = v"
    using assms(6) by (auto intro!: decode_encode_unsigned simp: uint16_def)
  then have buf: "map (\<lambda>v. ?un (encode_elem (uint16 False) v)) (data A) =
      map (encode_elem (int32 False)) (data A)"
    by simp
  have "pack P (A\<lparr>dtype := uint16 False\<rparr>, ''I;16'', ''I'') =
      Inr \<lparr>mode = ''I'', size_im = (w, h),
           buffer = concat (map (\<lambda>v. ?un (encode_elem (uint16 False) v)) (data A)),
           palette = None, fp = None, readable = True\<rparr>"
    using pack_2d [of "A\<lparr>dtype := uint16 False\<rparr>" h w P "''I''" "''I;16''" ?un 4]
      assms(1,7) len
    by (simp add: raw_unpack_def mode_bytes_def uint16_def)
  then have "pack P (A\<lparr>dtype := uint16 False\<rparr>, ''I;16'', ''I'') = Inr ?im"
    by (simp only: buf)
  then have pk: "pack P (astype_int A (uint16 False), ''I;16'', ''I'') = Inr ?im"
    by (simp only: cast)
  have to: "ndarray_to_pil P A fmt = Inr ?im"
    using ndarray_to_pil_2d [of A h w P fmt] assms(1,2,3) sel pk by simp
  have dec: "\<forall>v\<in>set (data A). decode_elem (int32 False) (encode_elem (int32 False) v) = v"
    using assms(6) by (auto intro!: decode_encode_int32)
  have "np_array_im P ?im None = Inr \<lparr>shape = [h, w], dtype = int32 False, data = data A\<rparr>"
    using len dec assms(7) by (intro array_of_image) (simp_all add: mode_conv_def int32_def)
  then have "pil_to_ndarray_value P ?im None =
      Inr \<lparr>shape = [h, w], dtype = int32 False, data = data A\<rparr>"
    by (simp add: value_of_plain_mode)
  then have "pil_to_ndarray P ?im None opened =
      (Inr \<lparr>shape = [h, w], dtype = int32 False, data = data A\<rparr>, opened)"
    by (simp add: pil_to_ndarray_def)
  with to show ?thesis by blast
qed

theorem roundtrip_16bit_witness:
  "wf_array \<lparr>shape = [2, 2], dtype = int32 False, data = [256, 1000, 65535, 4660]\<rparr> \<and>
   list_all (\<lambda>v. 256 \<le> v \<and> v < 65536) [256, 1000, 65535, 4660 :: int] \<and>
   \<not> big_endian_host sample_host \<and>
   ndarray_to_pil sample_host
     \<lparr>shape = [2, 2], dtype = int32 False, data = [256, 1000, 65535, 4660]\<rparr> None =
     Inr \<lparr>mode = ''I'', size_im = (2, 2),
          buffer = [0, 1, 0, 0, 232, 3, 0, 0, 255, 255, 0, 0, 52, 18, 0, 0],
          palette = None, fp = None, readable = True\<rparr> \<and>
   pil_to_ndarray sample_host
     \<lparr>mode = ''I'', size_im = (2, 2),
      buffer = [0, 1, 0, 0, 232, 3, 0, 0, 255, 255, 0, 0, 52, 18, 0, 0],
      palette = None, fp = None, readable = True\<rparr> None {} =
     (Inr \<lparr>shape = [2, 2], dtype = int32 False, data = [256, 1000, 65535, 4660]\<rparr>, {})"
proof -
  let ?A = "\<lparr>shape = [2, 2], dtype = int32 False, data = [256, 1000, 65535, 4660]\<rparr>"
  have to: "ndarray_to_pil sample_host ?A None =
     Inr \<lparr>mode = ''I'', size_im = (2, 2),
          buffer = [0, 1, 0, 0, 232, 3, 0, 0, 255, 255, 0, 0, 52, 18, 0, 0],
          palette = None, fp = None, readable = True\<rparr>"
    by code_simp
  have "\<exists>im. ndarray_to_pil sample_host ?A None = Inr im \<and>
              pil_to_ndarray sample_host im None {} =
                (Inr \<lparr>shape = [2, 2], dtype = int32 False, data = data ?A\<rparr>, {})"
    by (rule roundtrip_16bit [of ?A 2 2]) (simp_all add: wf_array_def int32_def sample_host_def)
  with to show ?thesis by (simp add: wf_array_def sample_host_def)
qed

text \<open>
  An array of one row is refused and an array with no element has no maximum; and on a
  big-endian host the native bytes of the 16-bit array are read back through the
  little-endian raw mode, so the values come back with their bytes swapped.
\<close>

theorem roundtrip_16bit_counterexample:
  "ndarray_to_pil sample_host \<lparr>shape = [1, 2], dtype = int32 False, data = [256, 300]\<rparr> None =
     Inl (ValueError ''Invalid shape for image array: 2'') \<and>
   ndarray_to_pil sample_host \<lparr>shape = [2, 0], dtype = int32 False, data = []\<rparr> None =
     Inl (ValueError ''zero-size array to reduction operation maximum which has no identity'') \<and>
   ndarray_to_pil (sample_host\<lparr>big_endian_host := True\<rparr>)
     \<lparr>shape = [2, 2], dtype = int32 False, data = [256, 1000, 65535, 4660]\<rparr> None =
     Inr \<lparr>mode = ''I'', size_im = (2, 2),
          buffer = [0, 0, 0, 1, 0, 0, 232, 3, 0, 0, 255, 255, 0, 0, 52, 18],
          palette = None, fp = None, readable = True\<rparr> \<and>
   pil_to_ndarray (sample_host\<lparr>big_endian_host := True\<rparr>)
     \<lparr>mode = ''I'', size_im = (2, 2),
      buffer = [0, 0, 0, 1, 0, 0, 232, 3, 0, 0, 255, 255, 0, 0, 52, 18],
      palette = None, fp = None, readable = True\<rparr> None {} =
     (Inr \<lparr>shape = [2, 2], dtype = int32 True, data = [1, 59395, 65535, 13330]\<rparr>, {})"
  by code_simp

section \<open>The palette test\<close>

lemma tolerance_int: "(\<bar>rat_of_int d\<bar> \<le> 1 / 10 ^ 8) = (d = 0)"
proof
  assume le: "\<bar>rat_of_int d\<bar> \<le> 1 / 10 ^ 8"
  show "d = 0"
  proof (rule ccontr)
    assume "d \<noteq> 0"
    then have "1 \<le> \<bar>d\<bar>" by simp
    then have "rat_of_int 1 \<le> rat_of_int \<bar>d\<bar>"
      by (simp only: of_int_le_iff)
    then have "1 \<le> \<bar>rat_of_int d\<bar>" by simp
    with le show False by simp
  qed
next
  assume "d = 0"
  then show "\<bar>rat_of_int d\<bar> \<le> 1 / 10 ^ 8" by simp
qed

lemma take3_drop:
  assumes "i * 3 + 3 \<le> length p"
  shows "take 3 (drop (i * 3) p) = [p ! (3 * i), p ! (3 * i + 1), p ! (3 * i + 2)]"
proof (rule nth_equalityI)
  show "length (take 3 (drop (i * 3) p)) = length [p ! (3 * i), p ! (3 * i + 1), p ! (3 * i + 2)]"
    using assms by simp
next
  fix j
  assume "j < length (take 3 (drop (i * 3) p))"
  then have j: "j < 3" by simp
  then have "j = 0 \<or> j = 1 \<or> j = 2" by arith
  then show "take 3 (drop (i * 3) p) ! j = [p ! (3 * i), p ! (3 * i + 1), p ! (3 * i + 2)] ! j"
    using assms by (auto simp: mult.commute)
qed

lemma gray_row:
  assumes "i * 3 + 3 \<le> length p"
  shows "list_all (\<lambda>d. \<bar>rat_of_int d\<bar> \<le> 1 / 10 ^ 8) (diff (take 3 (drop (i * 3) p))) =
         (p ! (3 * i) = p ! (3 * i + 1) \<and> p ! (3 * i + 1) = p ! (3 * i + 2))"
proof -
  have "diff [a, b, c] = [b - a, c - b]" for a b c :: int
    by (simp add: diff_def)
  then have "list_all (\<lambda>d. \<bar>rat_of_int d\<bar> \<le> 1 / 10 ^ 8) (diff (take 3 (drop (i * 3) p))) =
      (p ! (3 * i + 1) - p ! (3 * i) = 0 \<and> p ! (3 * i + 2) - p ! (3 * i + 1) = 0)"
    by (simp only: take3_drop [OF assms] list.pred_inject tolerance_int simp_thms)
  then show ?thesis by auto
qed

lemma getextrema_bound:
  assumes "getextrema im = Inr (Some (start, stop))"
  shows "stop < 256 \<and> stop \<in> set (map unat (buffer im))"
proof -
  have ne: "buffer im \<noteq> []" and st: "stop = Max (set (map unat (buffer im)))"
    using assms by (auto simp: getextrema_def load_def split: if_splits)
  have "Max (set (map unat (buffer im))) \<in> set (map unat (buffer im))"
    using ne by (intro Max_in) simp_all
  then have mem: "stop \<in> set (map unat (buffer im))"
    using st by simp
  then obtain b :: byte where "stop = unat b"
    by auto
  moreover have "unat b < 2 ^ LENGTH(8)"
    by (rule unsigned_less)
  ultimately show ?thesis using mem by simp
qed

lemma palette_is_grayscale_eq:
  assumes "mode im = ''P''" "getpalette im = Inr (Some p)" "length p = 768"
    and "getextrema im = Inr (Some (start, stop))"
  shows "palette_is_grayscale im =
         Inr (\<forall>i. start \<le> i \<and> i < stop \<longrightarrow>
                  p ! (3 * i) = p ! (3 * i + 1) \<and> p ! (3 * i + 1) = p ! (3 * i + 2))"
proof -
  let ?row = "\<lambda>i. take 3 (drop (i * 3) p)"
  have stop: "stop < 256"
    using getextrema_bound [OF assms(4)] by simp
  have valid: "drop start (take stop (map ?row [0..<256])) = map ?row [start..<stop]"
    using stop by (simp add: take_map drop_map)
  have res: "palette_is_grayscale im = Inr (allclose_zero (map diff (map ?row [start..<stop])))"
    using assms valid by (simp add: palette_is_grayscale_def reshape_rows_def)
  have "allclose_zero (map diff (map ?row [start..<stop])) =
        (\<forall>i\<in>{start..<stop}. list_all (\<lambda>d. \<bar>rat_of_int d\<bar> \<le> 1 / 10 ^ 8) (diff (?row i)))"
    by (simp add: allclose_zero_def list_all_iff)
  also have "\<dots> = (\<forall>i\<in>{start..<stop}.
        p ! (3 * i) = p ! (3 * i + 1) \<and> p ! (3 * i + 1) = p ! (3 * i + 2))"
  proof (rule ball_cong [OF refl])
    fix i
    assume "i \<in> {start..<stop}"
    then have "i * 3 + 3 \<le> length p"
      using stop assms(3) by simp
    then show "list_all (\<lambda>d. \<bar>rat_of_int d\<bar> \<le> 1 / 10 ^ 8) (diff (?row i)) =
        (p ! (3 * i) = p ! (3 * i + 1) \<and> p ! (3 * i + 1) = p ! (3 * i + 2))"
      by (rule gray_row)
  qed
  also have "\<dots> = (\<forall>i. start \<le> i \<and> i < stop \<longrightarrow>
        p ! (3 * i) = p ! (3 * i + 1) \<and> p ! (3 * i + 1) = p ! (3 * i + 2))"
    by auto
  finally show ?thesis using res by simp
qed

text \<open>
  Claim C4. For a palette image with a palette of 256 rows of three and extrema
  \<open>(start, stop)\<close>, \<^verbatim>\<open>_palette_is_grayscale\<close> returns true exactly when every row \<open>i\<close> with
  \<open>start \<le> i < stop\<close> has its three channels equal; the palette entries are integers, for
  which equal within the tolerance of \<^verbatim>\<open>allclose\<close> is equal. When \<open>start = stop\<close> the
  range is empty and the result is true, not a failure.
\<close>

theorem palette_grayscale_iff:
  assumes "mode im = ''P''" "getpalette im = Inr (Some p)" "length p = 768"
    and "getextrema im = Inr (Some (start, stop))"
  shows "palette_is_grayscale im =
           Inr (\<forall>i. start \<le> i \<and> i < stop \<longrightarrow>
                    p ! (3 * i) = p ! (3 * i + 1) \<and> p ! (3 * i + 1) = p ! (3 * i + 2)) \<and>
         (start = stop \<longrightarrow> palette_is_grayscale im = Inr True)"
  using palette_is_grayscale_eq [OF assms] by auto

theorem palette_grayscale_iff_witness:
  "getextrema
     \<lparr>mode = ''P'', size_im = (2, 1), buffer = [10, 20], palette = Some (replicate 768 7),
      fp = None, readable = True\<rparr> = Inr (Some (10, 20)) \<and>
   palette_is_grayscale
     \<lparr>mode = ''P'', size_im = (2, 1), buffer = [10, 20], palette = Some (replicate 768 7),
      fp = None, readable = True\<rparr> = Inr True \<and>
   palette_is_grayscale
     \<lparr>mode = ''P'', size_im = (2, 1), buffer = [10, 20],
      palette = Some ((replicate 768 7)[30 := 1, 31 := 2, 32 := 3]),
      fp = None, readable = True\<rparr> = Inr False \<and>
   palette_is_grayscale
     \<lparr>mode = ''P'', size_im = (2, 1), buffer = [5, 5],
      palette = Some ((replicate 768 7)[15 := 1, 16 := 2, 17 := 3]),
      fp = None, readable = True\<rparr> = Inr True"
proof -
  let ?a = "\<lparr>mode = ''P'', size_im = (2, 1), buffer = [10, 20], palette = Some (replicate 768 7),
      fp = None, readable = True\<rparr>"
  let ?b = "\<lparr>mode = ''P'', size_im = (2, 1), buffer = [10, 20],
      palette = Some ((replicate 768 7)[30 := 1, 31 := 2, 32 := 3]),
      fp = None, readable = True\<rparr>"
  let ?c = "\<lparr>mode = ''P'', size_im = (2, 1), buffer = [5, 5],
      palette = Some ((replicate 768 7)[15 := 1, 16 := 2, 17 := 3]),
      fp = None, readable = True\<rparr>"
  have a: "palette_is_grayscale ?a = Inr True"
    using palette_grayscale_iff [of ?a "replicate 768 7" 10 20]
    by (simp add: getpalette_def getextrema_def load_def)
  have "\<not> (\<forall>i::nat. 10 \<le> i \<and> i < 20 \<longrightarrow>
      (replicate 768 (7::int))[30 := 1, 31 := 2, 32 := 3] ! (3 * i) =
      (replicate 768 7)[30 := 1, 31 := 2, 32 := 3] ! (3 * i + 1) \<and>
      (replicate 768 7)[30 := 1, 31 := 2, 32 := 3] ! (3 * i + 1) =
      (replicate 768 7)[30 := 1, 31 := 2, 32 := 3] ! (3 * i + 2))"
    by (simp add: not_all) (rule exI [of _ 10], simp)
  then have b: "palette_is_grayscale ?b = Inr False"
    using palette_grayscale_iff [of ?b "(replicate 768 7)[30 := 1, 31 := 2, 32 := 3]" 10 20]
    by (simp add: getpalette_def getextrema_def load_def)
  have c: "palette_is_grayscale ?c = Inr True"
    using palette_grayscale_iff [of ?c "(replicate 768 7)[15 := 1, 16 := 2, 17 := 3]" 5 5]
    by (simp add: getpalette_def getextrema_def load_def)
  have ex: "getextrema ?a = Inr (Some (10, 20))"
    by (simp add: getextrema_def load_def)
  from a b c ex show ?thesis by simp
qed

text \<open>
  Claim C10. The result of \<^verbatim>\<open>_palette_is_grayscale\<close> does not depend on a palette row at
  index \<open>stop\<close> or beyond: two palette images with the same extrema whose palettes agree
  on the rows below \<open>stop\<close> get the same result. \<open>stop\<close> is itself the value of a pixel
  (the extrema are inclusive), yet the slice leaves its row out: when every row of
  \<open>[start, stop)\<close> is gray the result is true, whatever row \<open>stop\<close> holds.
\<close>

theorem palette_from_stop_ignored:
  assumes "mode im = ''P''" "getpalette im = Inr (Some p)" "length p = 768"
    and "getextrema im = Inr (Some (start, stop))"
    and "mode im' = ''P''" "getpalette im' = Inr (Some p')" "length p' = 768"
    and "getextrema im' = Inr (Some (start, stop))"
    and "\<forall>j<3 * stop. p' ! j = p ! j"
  shows "palette_is_grayscale im' = palette_is_grayscale im \<and>
         stop \<in> set (map unat (buffer im)) \<and>
         ((\<forall>i. start \<le> i \<and> i < stop \<longrightarrow>
               p ! (3 * i) = p ! (3 * i + 1) \<and> p ! (3 * i + 1) = p ! (3 * i + 2)) \<longrightarrow>
          palette_is_grayscale im = Inr True)"
proof -
  have same: "p' ! (3 * i) = p ! (3 * i) \<and> p' ! (3 * i + 1) = p ! (3 * i + 1) \<and>
      p' ! (3 * i + 2) = p ! (3 * i + 2)" if "i < stop" for i
    using that assms(9) by simp
  have "(\<forall>i. start \<le> i \<and> i < stop \<longrightarrow>
            p' ! (3 * i) = p' ! (3 * i + 1) \<and> p' ! (3 * i + 1) = p' ! (3 * i + 2)) =
        (\<forall>i. start \<le> i \<and> i < stop \<longrightarrow>
            p ! (3 * i) = p ! (3 * i + 1) \<and> p ! (3 * i + 1) = p ! (3 * i + 2))"
    using same by auto
  then have "palette_is_grayscale im' = palette_is_grayscale im"
    using palette_is_grayscale_eq [OF assms(1-4)] palette_is_grayscale_eq [OF assms(5-8)]
    by simp
  moreover have "stop \<in> set (map unat (buffer im))"
    using getextrema_bound [OF assms(4)] by simp
  ultimately show ?thesis
    using palette_is_grayscale_eq [OF assms(1-4)] by simp
qed

theorem palette_from_stop_ignored_witness:
  "getextrema
     \<lparr>mode = ''P'', size_im = (2, 1), buffer = [0, 1],
      palette = Some ((replicate 768 0)[3 := 255]), fp = None, readable = True\<rparr> =
     Inr (Some (0, 1)) \<and>
   palette_is_grayscale
     \<lparr>mode = ''P'', size_im = (2, 1), buffer = [0, 1],
      palette = Some ((replicate 768 0)[3 := 255]), fp = None, readable = True\<rparr> =
   palette_is_grayscale
     \<lparr>mode = ''P'', size_im = (2, 1), buffer = [0, 1],
      palette = Some (replicate 768 0), fp = None, readable = True\<rparr> \<and>
   1 \<in> set (map unat [0, 1 :: byte]) \<and>
   (replicate 768 (0::int))[3 := 255] ! (3 * 1) \<noteq> (replicate 768 0)[3 := 255] ! (3 * 1 + 1) \<and>
   palette_is_grayscale
     \<lparr>mode = ''P'', size_im = (2, 1), buffer = [0, 1],
      palette = Some ((replicate 768 0)[3 := 255]), fp = None, readable = True\<rparr> = Inr True"
proof -
  let ?gray = "\<lparr>mode = ''P'', size_im = (2, 1), buffer = [0, 1],
      palette = Some (replicate 768 0), fp = None, readable = True\<rparr>"
  let ?red = "\<lparr>mode = ''P'', size_im = (2, 1), buffer = [0, 1],
      palette = Some ((replicate 768 0)[3 := 255]), fp = None, readable = True\<rparr>"
  have agree: "\<forall>j<3 * 1. (replicate 768 (0::int))[3 := 255] ! j = replicate 768 0 ! j"
    by simp
  have ex: "getextrema ?gray = Inr (Some (0, 1))" "getextrema ?red = Inr (Some (0, 1))"
    by (simp_all add: getextrema_def load_def)
  have one: "palette_is_grayscale ?red = palette_is_grayscale ?gray"
    using palette_from_stop_ignored [of ?gray "replicate 768 0" 0 1 ?red
        "(replicate 768 0)[3 := 255]"] agree ex
    by (simp add: getpalette_def load_def)
  have two: "palette_is_grayscale ?red = Inr True"
    using palette_from_stop_ignored [of ?red "(replicate 768 0)[3 := 255]" 0 1 ?red
        "(replicate 768 0)[3 := 255]"] ex
    by (simp add: getpalette_def load_def)
  from one two ex show ?thesis by simp
qed

section \<open>Shape validation\<close>

text \<open>
  Claim C5, as the code has it. \<^verbatim>\<open>squeeze()\<close> drops every axis of length 1. An input
  whose squeezed shape is neither 2-D nor 3-D makes \<^verbatim>\<open>ndarray_to_pil\<close> fail with no image;
  when that shape is 1-D the failure is the \<^verbatim>\<open>ValueError\<close> "Invalid shape for image array";
  when it is 3-D with a last axis other than 3 or 4 the failure is the \<^verbatim>\<open>ValueError\<close>
  "Invalid number of channels in image array."
\<close>

theorem invalid_shape_rejected:
  "(ndim (squeeze a) \<noteq> 2 \<and> ndim (squeeze a) \<noteq> 3 \<longrightarrow> (\<exists>e. ndarray_to_pil P a fmt = Inl e)) \<and>
   (\<forall>n. shape (squeeze a) = [n] \<longrightarrow>
        ndarray_to_pil P a fmt =
          Inl (ValueError (''Invalid shape for image array: '' @ show_nat n))) \<and>
   (ndim (squeeze a) = 3 \<and> shape (squeeze a) ! 2 \<noteq> 3 \<and> shape (squeeze a) ! 2 \<noteq> 4 \<longrightarrow>
      ndarray_to_pil P a fmt = Inl (ValueError ''Invalid number of channels in image array.''))"
  by (simp add: ndarray_to_pil_def Let_def ndim_def invalid_shape_def)

theorem invalid_shape_rejected_witness:
  "shape (squeeze \<lparr>shape = [1, 7], dtype = uint8, data = [0, 1, 2, 3, 4, 5, 6]\<rparr>) = [7] \<and>
   ndarray_to_pil sample_host \<lparr>shape = [1, 7], dtype = uint8, data = [0, 1, 2, 3, 4, 5, 6]\<rparr> None =
     Inl (ValueError ''Invalid shape for image array: 7'') \<and>
   ndim (squeeze \<lparr>shape = [2, 2, 2], dtype = uint8, data = [0, 1, 2, 3, 4, 5, 6, 7]\<rparr>) = 3 \<and>
   shape (squeeze \<lparr>shape = [2, 2, 2], dtype = uint8, data = [0, 1, 2, 3, 4, 5, 6, 7]\<rparr>) ! 2 = 2 \<and>
   ndarray_to_pil sample_host
     \<lparr>shape = [2, 2, 2], dtype = uint8, data = [0, 1, 2, 3, 4, 5, 6, 7]\<rparr> None =
     Inl (ValueError ''Invalid number of channels in image array.'')"
proof -
  have seven: "show_nat 7 = ''7''"
    by code_simp
  show ?thesis
    using invalid_shape_rejected
        [of "\<lparr>shape = [1, 7], dtype = uint8, data = [0, 1, 2, 3, 4, 5, 6]\<rparr>" sample_host None]
      invalid_shape_rejected
        [of "\<lparr>shape = [2, 2, 2], dtype = uint8, data = [0, 1, 2, 3, 4, 5, 6, 7]\<rparr>" sample_host None]
    by (simp add: squeeze_def ndim_def seven)
qed

text \<open>
  Shape \<open>(1, 2, 2)\<close> has no trailing axis of length 1, so as the claim words it the shape
  stays 3-D with a last axis of 2 and must be refused; the code drops the leading axis and
  returns an 8-bit image.
\<close>

theorem invalid_shape_rejected_counterexample:
  "trailing_squeezed [1, 2, 2] = [1, 2, 2] \<and>
   ndarray_to_pil sample_host \<lparr>shape = [1, 2, 2], dtype = uint8, data = [0, 1, 2, 3]\<rparr> None =
     Inr \<lparr>mode = ''L'', size_im = (2, 2), buffer = [0, 1, 2, 3],
          palette = None, fp = None, readable = True\<rparr>"
  by code_simp

text \<open>
  The message of line 106 is built with \<^verbatim>\<open>%\<close> on the shape tuple itself. When the squeezed
  shape has no axis, or four and more, the formatting raises \<^verbatim>\<open>TypeError\<close> and the
  \<^verbatim>\<open>ValueError\<close> is never built.
\<close>

lemma invalid_shape_format_slip:
  assumes "ndim (squeeze a) = 0 \<or> 4 \<le> ndim (squeeze a)"
  shows "\<exists>m. ndarray_to_pil P a fmt = Inl (TypeError m)"
proof (cases "shape (squeeze a)")
  case Nil
  then show ?thesis
    by (simp add: ndarray_to_pil_def Let_def ndim_def invalid_shape_def)
next
  case (Cons n ns)
  with assms obtain k ks where "ns = k # ks"
    by (cases ns) (auto simp: ndim_def)
  with Cons assms show ?thesis
    by (auto simp: ndarray_to_pil_def Let_def ndim_def invalid_shape_def split: list.splits)
qed

section \<open>The file handle\<close>

text \<open>
  Claim C6, as the code has it. When the image holds a file handle, \<^verbatim>\<open>pil_to_ndarray\<close>
  closes it on every normal return; when the conversion raises, the set of open handles
  is left as it was.
\<close>

theorem handle_closed_on_return:
  assumes "fp im = Some h"
  shows "(\<forall>a opened'. pil_to_ndarray P im dt opened = (Inr a, opened') \<longrightarrow>
            h \<notin> opened' \<and> opened' = opened - {h}) \<and>
         (\<forall>e opened'. pil_to_ndarray P im dt opened = (Inl e, opened') \<longrightarrow> opened' = opened)"
  using assms by (auto simp: pil_to_ndarray_def Let_def split: sum.splits)

theorem handle_closed_on_return_witness:
  "fp \<lparr>mode = ''L'', size_im = (2, 1), buffer = [8, 9], palette = None, fp = Some 3,
       readable = True\<rparr> = Some 3 \<and>
   pil_to_ndarray sample_host
     \<lparr>mode = ''L'', size_im = (2, 1), buffer = [8, 9], palette = None, fp = Some 3,
      readable = True\<rparr> None {3, 4} =
     (Inr \<lparr>shape = [1, 2], dtype = uint8, data = [8, 9]\<rparr>, {4}) \<and>
   3 \<notin> {4 :: nat}"
proof -
  let ?im = "\<lparr>mode = ''L'', size_im = (2, 1), buffer = [8, 9], palette = None, fp = Some 3,
      readable = True\<rparr>"
  have run: "fst (pil_to_ndarray sample_host ?im None {3, 4}) =
      Inr \<lparr>shape = [1, 2], dtype = uint8, data = [8, 9]\<rparr>"
    by code_simp
  obtain r o' where ro: "pil_to_ndarray sample_host ?im None {3, 4} = (r, o')"
    by (cases "pil_to_ndarray sample_host ?im None {3, 4}")
  with run have r: "r = Inr \<lparr>shape = [1, 2], dtype = uint8, data = [8, 9]\<rparr>"
    by simp
  have "o' = {3, 4} - {3}"
    using handle_closed_on_return [of ?im 3 sample_host None "{3, 4}"] ro r by simp
  then have "o' = {4}" by auto
  with ro r show ?thesis by simp
qed

text \<open>
  A 1-bit image whose data cannot be loaded makes \<^verbatim>\<open>im.convert('L')\<close> raise, and handle 3
  is still open afterwards.
\<close>

theorem handle_closed_on_return_counterexample:
  "fp \<lparr>mode = ''1'', size_im = (2, 1), buffer = [], palette = None, fp = Some 3,
       readable = False\<rparr> = Some 3 \<and>
   pil_to_ndarray sample_host
     \<lparr>mode = ''1'', size_im = (2, 1), buffer = [], palette = None, fp = Some 3,
      readable = False\<rparr> None {3} =
     (Inl (IOError ''image file is truncated''), {3}) \<and>
   3 \<in> {3 :: nat}"
  by (simp add: pil_to_ndarray_def pil_to_ndarray_value_def im_convert_def load_def)

section \<open>16-bit images\<close>

lemma i16_value:
  assumes "prefix ''I;16'' (mode im)" "readable im" "size_im im = (w, h)"
    and "length (buffer im) = 2 * (w * h)"
  shows "pil_to_ndarray_value P im dt =
         Inr \<lparr>shape = [h, w], dtype = uint16 (suffix ''B'' (mode im)),
              data = map (\<lambda>c. if suffix ''B'' (mode im)
                               then 256 * uint (c ! 0) + uint (c ! 1)
                               else uint (c ! 0) + 256 * uint (c ! 1))
                         (chunks 2 (buffer im))\<rparr>"
proof -
  let ?big = "suffix ''B'' (mode im)"
  have branch: "mode im \<noteq> ''P''" "mode im \<noteq> ''1''"
    using assms(1) by auto
  have n: "length (chunks 2 (buffer im)) = h * w"
    using assms(4) by (simp add: length_chunks)
  have "length c = 2" if "c \<in> set (chunks 2 (buffer im))" for c
    using that assms(4) by (intro length_chunk [of 2 "buffer im" c]) simp_all
  then have "\<forall>c\<in>set (chunks 2 (buffer im)). length c = 2"
    by blast
  then have dec: "map (decode_elem (uint16 ?big)) (chunks 2 (buffer im)) =
      map (\<lambda>c. if ?big then 256 * uint (c ! 0) + uint (c ! 1)
                else uint (c ! 0) + 256 * uint (c ! 1)) (chunks 2 (buffer im))"
    by (intro map_cong refl) (simp add: decode_uint16_pair)
  have dt': "(if ?big then uint16 True else uint16 False) = uint16 ?big"
    by simp
  have "pil_to_ndarray_value P im dt =
      Inr \<lparr>shape = [h, w], dtype = uint16 ?big,
           data = map (decode_elem (uint16 ?big)) (chunks 2 (buffer im))\<rparr>"
    using assms branch n
    by (simp add: pil_to_ndarray_value_def Let_def dt' im_tostring_def load_def fromstring_def
        set_shape_def np_array_def uint16_def)
  with dec show ?thesis by simp
qed

text \<open>
  Claim C7. For a readable image whose mode starts with \<^verbatim>\<open>I;16\<close>, of size
  \<open>(width, height)\<close> with two bytes per pixel, \<^verbatim>\<open>pil_to_ndarray\<close> returns an unsigned 16-bit
  array of shape \<open>(height, width)\<close> whose elements are the byte pairs read high byte first
  exactly when the mode ends in \<^verbatim>\<open>B\<close>, and low byte first otherwise, whatever \<^verbatim>\<open>dtype\<close> the
  caller asked for; the image's file handle, if it has one, is closed.
\<close>

theorem i16_read:
  assumes "prefix ''I;16'' (mode im)" "readable im" "size_im im = (w, h)"
    and "length (buffer im) = 2 * (w * h)"
  shows "pil_to_ndarray P im dt opened =
         (Inr \<lparr>shape = [h, w], dtype = uint16 (suffix ''B'' (mode im)),
               data = map (\<lambda>c. if suffix ''B'' (mode im)
                                then 256 * uint (c ! 0) + uint (c ! 1)
                                else uint (c ! 0) + 256 * uint (c ! 1))
                          (chunks 2 (buffer im))\<rparr>,
          case fp im of None \<Rightarrow> opened | Some handle \<Rightarrow> opened - {handle})"
  by (simp add: pil_to_ndarray_def i16_value [OF assms])

theorem i16_read_witness:
  "prefix ''I;16'' ''I;16B'' \<and> suffix ''B'' ''I;16B'' \<and> \<not> suffix ''B'' ''I;16'' \<and>
   pil_to_ndarray sample_host
     \<lparr>mode = ''I;16B'', size_im = (2, 1), buffer = [1, 2, 3, 4], palette = None, fp = Some 5,
      readable = True\<rparr> None {5, 6} =
     (Inr \<lparr>shape = [1, 2], dtype = uint16 True, data = [258, 772]\<rparr>, {6}) \<and>
   pil_to_ndarray sample_host
     \<lparr>mode = ''I;16'', size_im = (2, 1), buffer = [1, 2, 3, 4], palette = None, fp = None,
      readable = True\<rparr> (Some uint8) {5, 6} =
     (Inr \<lparr>shape = [1, 2], dtype = uint16 False, data = [513, 1027]\<rparr>, {5, 6})"
proof -
  have ch: "chunks 2 [1, 2, 3, 4 :: byte] = [[1, 2], [3, 4]]"
    by code_simp
  have op: "{5, 6} - {5 :: nat} = {6}"
    by auto
  show ?thesis
    using i16_read [of "\<lparr>mode = ''I;16B'', size_im = (2, 1), buffer = [1, 2, 3, 4],
          palette = None, fp = Some 5, readable = True\<rparr>" 2 1 sample_host None "{5, 6}"]
      i16_read [of "\<lparr>mode = ''I;16'', size_im = (2, 1), buffer = [1, 2, 3, 4],
          palette = None, fp = None, readable = True\<rparr>" 2 1 sample_host "Some uint8" "{5, 6}"]
    by (simp add: ch op suffix_def)
qed

section \<open>The format hint\<close>

text \<open>
  Claim C8. \<^verbatim>\<open>format_str\<close> has no influence on the image: \<^verbatim>\<open>ndarray_to_pil\<close> returns the same
  result (the same image, so the same mode, or the same exception) for any two values of
  it, and the image \<^verbatim>\<open>imsave\<close> hands to \<^verbatim>\<open>save\<close> is the same for any two values of its
  \<^verbatim>\<open>format_str\<close>.
\<close>

theorem format_str_ignored:
  "ndarray_to_pil P arr f1 = ndarray_to_pil P arr f2 \<and>
   map_sum id saved_image (imsave P d arr f1) = map_sum id saved_image (imsave P d arr f2)"
  by (cases "ndarray_to_pil P arr None") (simp_all add: ndarray_to_pil_def imsave_def Let_def)

theorem format_str_ignored_witness:
  "ndarray_to_pil sample_host \<lparr>shape = [2, 2], dtype = uint8, data = [0, 1, 2, 3]\<rparr> (Some ''tiff'') =
   ndarray_to_pil sample_host \<lparr>shape = [2, 2], dtype = uint8, data = [0, 1, 2, 3]\<rparr> None \<and>
   map_sum id saved_image
     (imsave sample_host (FileObj 1) \<lparr>shape = [2, 2], dtype = uint8, data = [0, 1, 2, 3]\<rparr>
        (Some ''tiff'')) =
   map_sum id saved_image
     (imsave sample_host (FileObj 1) \<lparr>shape = [2, 2], dtype = uint8, data = [0, 1, 2, 3]\<rparr> None)"
  using format_str_ignored [of sample_host "\<lparr>shape = [2, 2], dtype = uint8, data = [0, 1, 2, 3]\<rparr>"
      "Some ''tiff''" None "FileObj 1"]
  by simp

section \<open>Unreadable files\<close>

text \<open>
  Claim C9. When the opened image raises \<^verbatim>\<open>IOError\<close> on pixel access, \<^verbatim>\<open>imread\<close> fails
  with the \<^verbatim>\<open>ValueError\<close> "Could not load ...", whose message ends with the address of the
  installation notes; nothing is returned in its place.
\<close>

theorem imread_unreadable:
  assumes "Image_open P fname = Inr im" "getdata_first im = Inl (IOError m)"
  shows "fst (imread P fname dt opened) = Inl (ValueError (could_not_load fname)) \<and>
         suffix site (could_not_load fname)"
  using assms by (simp add: imread_def Let_def could_not_load_def suffix_def)

theorem imread_unreadable_witness:
  "Image_open sample_host ''truncated.png'' =
     Inr \<lparr>mode = ''L'', size_im = (2, 2), buffer = [], palette = None, fp = Some 3,
          readable = False\<rparr> \<and>
   getdata_first \<lparr>mode = ''L'', size_im = (2, 2), buffer = [], palette = None, fp = Some 3,
                  readable = False\<rparr> = Inl (IOError ''image file is truncated'') \<and>
   fst (imread sample_host ''truncated.png'' None {}) =
     Inl (ValueError (could_not_load ''truncated.png''))"
  using imread_unreadable [of sample_host "''truncated.png''"
      "\<lparr>mode = ''L'', size_im = (2, 2), buffer = [], palette = None, fp = Some 3,
        readable = False\<rparr>" "''image file is truncated''" None "{}"]
  by (simp add: sample_host_def getdata_first_def load_def)

end
